theory Spec2Isabelle
  imports Main
begin

section \<open>A private blockchain of star registrations: the class \<open>Blockchain\<close> of blockchain.js\<close>

text \<open>
  The development embeds \<^verbatim>\<open>src/.../blockchain.js\<close>. The class keeps an array
  \<^verbatim>\<open>this.chain\<close> of blocks and a number \<^verbatim>\<open>this.height\<close>; every method returns a promise.
  What the file uses and does not define is a parameter of the model, collected in the
  record \<open>env\<close>: the libraries \<^verbatim>\<open>crypto-js/sha256\<close> and \<^verbatim>\<open>bitcoinjs-message\<close>, the
  built-in \<^verbatim>\<open>JSON.stringify\<close>, and the methods \<^verbatim>\<open>validate\<close> and \<^verbatim>\<open>getBData\<close> of the
  class \<^verbatim>\<open>Block\<close>, whose file block.js is not among the sources.

  The methods are modelled twice: as one call that runs until its promise has settled
  before the next call is made, and, for the calls that append, with their \<^verbatim>\<open>await\<close>s, so
  that calls made in one run overlap as they do in the code.
\<close>

subsection \<open>Promises and asynchronous callbacks\<close>

text \<open>
  A promise ends resolved with a value, rejected with an error, or never settles
  (\<open>Pending\<close>): an exception thrown inside an \<^verbatim>\<open>async\<close> executor of \<^verbatim>\<open>new Promise\<close>
  rejects the executor's own promise, not the one under construction.
\<close>

datatype ('a, 'e) promise = Resolved 'a | Rejected 'e | Pending

text \<open>
  An \<^verbatim>\<open>async\<close> function runs synchronously up to its first \<^verbatim>\<open>await\<close>; there it is
  suspended and the rest of its body becomes a job of the microtask queue. A run of such a
  function over a state \<open>'s\<close> (the variables it shares with its caller) has returned
  (\<open>Done\<close>), has thrown (\<open>Threw\<close>) or waits at an \<^verbatim>\<open>await\<close> with the rest of its body
  (\<open>Await\<close>), which reads the state as it is when the job runs.
\<close>

datatype 's async = Done 's | Threw 's | Await 's "'s \<Rightarrow> 's async"

text \<open>
  One pass over the jobs that are in the queue, first in, first out. A job that reaches a
  further \<^verbatim>\<open>await\<close> queues the rest of its body behind the jobs already there; the
  result is the state and the jobs queued during the pass. A job that throws rejects the
  promise of its \<^verbatim>\<open>async\<close> function, which nobody reads here, and the pass goes on.
\<close>

fun run_jobs :: "('s \<Rightarrow> 's async) list \<Rightarrow> 's \<Rightarrow> 's \<times> ('s \<Rightarrow> 's async) list" where
  "run_jobs [] s = (s, [])"
| "run_jobs (k # q) s =
     (case k s of
        Done s' \<Rightarrow> run_jobs q s'
      | Threw s' \<Rightarrow> run_jobs q s'
      | Await s' k' \<Rightarrow> (case run_jobs q s' of (s'', q') \<Rightarrow> (s'', k' # q')))"

text \<open>
  \<^verbatim>\<open>array.forEach(async x => ...)\<close> calls the callback on every element in order and
  ignores the promise each call returns: every call runs to its first \<^verbatim>\<open>await\<close>, and when
  \<^verbatim>\<open>forEach\<close> returns the suspended callbacks are in the queue.
\<close>

definition forEach_async ::
  "('a \<Rightarrow> 's \<Rightarrow> 's async) \<Rightarrow> 'a list \<Rightarrow> 's \<Rightarrow> 's \<times> ('s \<Rightarrow> 's async) list" where
  "forEach_async f xs s = run_jobs (map f xs) s"

text \<open>One callback alone, run through all its \<^verbatim>\<open>await\<close>s to its end.\<close>

primrec finish :: "'s async \<Rightarrow> 's" where
  "finish (Done s) = s"
| "finish (Threw s) = s"
| "finish (Await s k) = finish (k s)"

subsection \<open>Numbers and strings of JavaScript\<close>

text \<open>
  A number that the code reads with \<^verbatim>\<open>parseInt\<close> is an integer or \<^verbatim>\<open>NaN\<close>, here
  \<open>None\<close>. Subtraction with \<^verbatim>\<open>NaN\<close> gives \<^verbatim>\<open>NaN\<close>, and every comparison with \<^verbatim>\<open>NaN\<close>
  is false. Integers are exact, where the code has doubles: a number of the code differs
  from the integer read only beyond \<open>2^53\<close>, and the one comparison the code makes, of the
  clock minus such a number with 300000, comes out the same for any clock below \<open>2^53\<close>.
\<close>

type_synonym number = "int option"

definition minus_number :: "number \<Rightarrow> number \<Rightarrow> number" where
  "minus_number a b =
     (case a of None \<Rightarrow> None | Some x \<Rightarrow> (case b of None \<Rightarrow> None | Some y \<Rightarrow> Some (x - y)))"

definition greater_number :: "number \<Rightarrow> int \<Rightarrow> bool" where
  "greater_number a c = (case a of None \<Rightarrow> False | Some x \<Rightarrow> c < x)"

definition isWhiteSpace :: "char \<Rightarrow> bool" where
  "isWhiteSpace c =
     (c = CHR '' '' \<or> c = CHR 0x09 \<or> c = CHR 0x0A \<or> c = CHR 0x0B \<or> c = CHR 0x0C \<or> c = CHR 0x0D
      \<or> c = CHR 0xA0)"

text \<open>The value of a character as a digit of radix 16 or less.\<close>

definition digitOf :: "char \<Rightarrow> nat option" where
  "digitOf =
     map_of
       [(CHR ''0'', 0), (CHR ''1'', 1), (CHR ''2'', 2), (CHR ''3'', 3), (CHR ''4'', 4),
        (CHR ''5'', 5), (CHR ''6'', 6), (CHR ''7'', 7), (CHR ''8'', 8), (CHR ''9'', 9),
        (CHR ''a'', 10), (CHR ''b'', 11), (CHR ''c'', 12), (CHR ''d'', 13), (CHR ''e'', 14),
        (CHR ''f'', 15), (CHR ''A'', 10), (CHR ''B'', 11), (CHR ''C'', 12), (CHR ''D'', 13),
        (CHR ''E'', 14), (CHR ''F'', 15)]"

text \<open>The values of the longest prefix of digits of the radix.\<close>

fun digits_prefix :: "nat \<Rightarrow> string \<Rightarrow> nat list" where
  "digits_prefix R [] = []"
| "digits_prefix R (c # cs) =
     (case digitOf c of
        None \<Rightarrow> []
      | Some d \<Rightarrow> if d < R then d # digits_prefix R cs else [])"

text \<open>
  \<^verbatim>\<open>parseInt(string)\<close> without a radix: leading white space is skipped, a sign is read, a
  prefix \<^verbatim>\<open>0x\<close> or \<^verbatim>\<open>0X\<close> selects radix 16, and the longest prefix of digits is the
  number; what follows the digits is ignored, and no digit at all gives \<^verbatim>\<open>NaN\<close>. A
  character of the model is a code unit below 256; the white space of JavaScript among
  these is the tab, the line feed, the vertical tab, the form feed, the carriage return,
  the space and the no-break space \<^verbatim>\<open>U+00A0\<close>.
\<close>

definition parseInt :: "string \<Rightarrow> number" where
  "parseInt str =
     (let s = dropWhile isWhiteSpace str;
          sign = (if take 1 s = ''-'' then - 1 else 1 :: int);
          s1 = (if take 1 s = ''-'' \<or> take 1 s = ''+'' then drop 1 s else s);
          R = (if take 2 s1 = ''0x'' \<or> take 2 s1 = ''0X'' then 16 else 10 :: nat);
          s2 = (if R = 16 then drop 2 s1 else s1);
          ds = digits_prefix R s2
      in if ds = [] then None else Some (sign * int (foldl (\<lambda>n d. n * R + d) 0 ds)))"

text \<open>\<^verbatim>\<open>string.split(c)\<close> for a separator of one character.\<close>

fun split :: "char \<Rightarrow> string \<Rightarrow> string list" where
  "split c [] = [[]]"
| "split c (x # xs) =
     (if x = c then [] # split c xs
      else (case split c xs of [] \<Rightarrow> [[x]] | y # ys \<Rightarrow> (x # y) # ys))"

text \<open>
  \<^verbatim>\<open>array[i]\<close> as an argument of \<^verbatim>\<open>parseInt\<close>: an index past the end reads
  \<^verbatim>\<open>undefined\<close>, which \<^verbatim>\<open>parseInt\<close> turns into the string \<^verbatim>\<open>"undefined"\<close>.
\<close>

definition component :: "string list \<Rightarrow> nat \<Rightarrow> string" where
  "component xs i = (if i < length xs then xs ! i else ''undefined'')"

definition digitChar :: "nat \<Rightarrow> char" where
  "digitChar d = ''0123456789'' ! d"

text \<open>\<^verbatim>\<open>number.toString()\<close> for a non-negative integer: its decimal digits.\<close>

fun toString :: "nat \<Rightarrow> string" where
  "toString n = (if n < 10 then [digitChar n] else toString (n div 10) @ [digitChar (n mod 10)])"

declare toString.simps [simp del]

text \<open>\<^verbatim>\<open>string.slice(0, -3)\<close>: the string without its last three characters.\<close>

definition slice_0_m3 :: "string \<Rightarrow> string" where
  "slice_0_m3 s = take (length s - 3) s"

text \<open>
  \<^verbatim>\<open>new Date().getTime().toString().slice(0,-3)\<close>, for a clock that reads \<open>now\<close>
  milliseconds since the epoch: the seconds, as a string.
\<close>

definition seconds_string :: "nat \<Rightarrow> string" where
  "seconds_string now = slice_0_m3 (toString now)"

text \<open>A template literal prints \<^verbatim>\<open>null\<close> for a field that is not set.\<close>

definition str_of :: "string option \<Rightarrow> string" where
  "str_of h = (case h of None \<Rightarrow> ''null'' | Some s \<Rightarrow> s)"

subsection \<open>Blocks\<close>

type_synonym star = string

text \<open>
  Modelled from the spec: block.js is not among the sources. The payload of a block is the
  genesis marker \<^verbatim>\<open>{data: 'Genesis Block'}\<close> or an ownership record
  \<^verbatim>\<open>{address, message, signature, star}\<close>; the star is opaque.
\<close>

datatype data = GenesisData string | StarData string string string star

text \<open>
  Modelled from the spec: block.js is not among the sources. A block has the fields that
  blockchain.js reads and writes (\<^verbatim>\<open>hash\<close>, \<^verbatim>\<open>height\<close>, \<^verbatim>\<open>time\<close>,
  \<^verbatim>\<open>previousBlockHash\<close>) and its payload; a hash that is not set is \<open>None\<close>.
\<close>

record Block =
  hash :: "string option"
  height :: int
  body :: data
  time :: string
  previousBlockHash :: "string option"

text \<open>
  Modelled from the spec: \<^verbatim>\<open>new BlockClass.Block(data)\<close> is in block.js, which is not
  among the sources. The spec's \<open>create(payload)\<close> constructs a block with height,
  timestamp, previous hash and hash unset and stores the payload. An unset hash is
  \<open>None\<close>; height and time, which \<^verbatim>\<open>_addBlock\<close> always assigns, start as 0 and the
  empty string.
\<close>

definition Block_new :: "data \<Rightarrow> Block" where
  "Block_new d = \<lparr>hash = None, height = 0, body = d, time = [], previousBlockHash = None\<rparr>"

text \<open>
  What blockchain.js calls and does not define: \<^verbatim>\<open>SHA256(s).toString()\<close> of crypto-js,
  \<^verbatim>\<open>JSON.stringify(block)\<close>, \<^verbatim>\<open>block.validate()\<close> and \<^verbatim>\<open>block.getBData()\<close> of block.js
  (the value their promise resolves with; \<open>None\<close> when \<^verbatim>\<open>getBData\<close> rejects or
  resolves with no object), and
  \<^verbatim>\<open>bitcoinMessage.verify(message, address, signature)\<close> (\<open>None\<close> when it throws). The
  promises of \<^verbatim>\<open>validate\<close> and \<^verbatim>\<open>getBData\<close> are settled when the call returns.
\<close>

record env =
  SHA256 :: "string \<Rightarrow> string"
  stringify :: "Block \<Rightarrow> string"
  validate :: "Block \<Rightarrow> bool"
  getBData :: "Block \<Rightarrow> data option"
  verify :: "string \<Rightarrow> string \<Rightarrow> string \<Rightarrow> bool option"

subsection \<open>The class \<open>Blockchain\<close>\<close>

record Blockchain =
  chain :: "Block list"
  height :: int

datatype error = Error string

text \<open>The state the constructor sets before it calls \<^verbatim>\<open>initializeChain\<close>.\<close>

definition Blockchain_empty :: Blockchain where
  "Blockchain_empty = \<lparr>chain = [], height = - 1\<rparr>"

definition getChainHeight :: "Blockchain \<Rightarrow> (int, error) promise" where
  "getChainHeight self = Resolved (Blockchain.height self)"

text \<open>\<^verbatim>\<open>self.chain.find(block => block.hash === hash)\<close>; \<^verbatim>\<open>null\<close> is \<open>None\<close>.\<close>

definition getBlockByHash :: "Blockchain \<Rightarrow> string option \<Rightarrow> Block option" where
  "getBlockByHash self h = find (\<lambda>block. hash block = h) (chain self)"

text \<open>\<^verbatim>\<open>self.chain.filter(p => p.height === height)[0]\<close>; \<^verbatim>\<open>null\<close> is \<open>None\<close>.\<close>

definition getBlockByHeight :: "Blockchain \<Rightarrow> int \<Rightarrow> Block option" where
  "getBlockByHeight self h =
     (case filter (\<lambda>p. Block.height p = h) (chain self) of [] \<Rightarrow> None | block # _ \<Rightarrow> Some block)"

text \<open>
  The callback of \<^verbatim>\<open>validateChain\<close> on one block; the state is \<^verbatim>\<open>errorLog\<close>. The
  callback returns at once on a block of height at most 0. Otherwise it calls
  \<^verbatim>\<open>block.validate()\<close> and waits; resumed, it pushes \<^verbatim>\<open>Invalid block\<close> and returns when
  the block is not valid, and otherwise calls \<^verbatim>\<open>getBlockByHash(block.previousBlockHash)\<close>
  and waits again; resumed, it reads \<^verbatim>\<open>prevBlock.hash\<close>, which throws a TypeError when
  \<^verbatim>\<open>prevBlock\<close> is \<^verbatim>\<open>null\<close>, and pushes the second message when that hash differs from
  \<^verbatim>\<open>block.hash\<close>.
\<close>

definition invalid_block_msg :: "Block \<Rightarrow> string" where
  "invalid_block_msg block = ''Invalid block '' @ str_of (hash block)"

definition invalid_previous_msg :: "Block \<Rightarrow> string" where
  "invalid_previous_msg block =
     ''Invalid previous block at '' @ str_of (hash block) @ '' with prev hash '' @
       str_of (previousBlockHash block)"

definition validateChain_callback :: "env \<Rightarrow> Blockchain \<Rightarrow> Block \<Rightarrow> string list \<Rightarrow> string list async" where
  "validateChain_callback e self block errorLog =
     (if Block.height block \<le> 0 then Done errorLog
      else
        Await errorLog (\<lambda>errorLog.
          if \<not> validate e block then Done (errorLog @ [invalid_block_msg block])
          else
            Await errorLog (\<lambda>errorLog.
              case getBlockByHash self (previousBlockHash block) of
                None \<Rightarrow> Threw errorLog
              | Some prevBlock \<Rightarrow>
                  if hash prevBlock \<noteq> hash block
                  then Done (errorLog @ [invalid_previous_msg block])
                  else Done errorLog)))"

text \<open>
  \<^verbatim>\<open>validateChain\<close>: the executor starts the callbacks with \<^verbatim>\<open>forEach\<close> and then, in the
  same synchronous run, rejects with \<^verbatim>\<open>errorLog\<close> when it is not empty and resolves with
  \<^verbatim>\<open>true\<close> otherwise. The callbacks still suspended run after that.
\<close>

definition validateChain :: "env \<Rightarrow> Blockchain \<Rightarrow> (bool, string list) promise" where
  "validateChain e self =
     (case forEach_async (validateChain_callback e self) (chain self) [] of
        (errorLog, jobs) \<Rightarrow> if errorLog \<noteq> [] then Rejected errorLog else Resolved True)"

text \<open>
  What \<^verbatim>\<open>errorLog\<close> holds once the queue has gone through the suspended callbacks twice
  (a callback has two \<^verbatim>\<open>await\<close>s), together with the jobs still waiting then.
\<close>

definition validateChain_errorLog :: "env \<Rightarrow> Blockchain \<Rightarrow> string list \<times> (string list \<Rightarrow> string list async) list" where
  "validateChain_errorLog e self =
     (case forEach_async (validateChain_callback e self) (chain self) [] of
        (log0, jobs0) \<Rightarrow>
          (case run_jobs jobs0 log0 of
             (log1, jobs1) \<Rightarrow> run_jobs jobs1 log1))"

text \<open>
  Lines 69 to 81 of \<^verbatim>\<open>_addBlock\<close>: the height, the time and, when the stored height is
  positive and a block of the height before is found, the previous hash are assigned; then
  the hash is set to the digest of \<^verbatim>\<open>JSON.stringify(block)\<close>. The clock reads \<open>now\<close>.
  In the model every block has a field \<^verbatim>\<open>hash\<close>, so \<^verbatim>\<open>'hash' in prevBlock\<close> holds.
\<close>

definition addBlock_finalize :: "env \<Rightarrow> nat \<Rightarrow> Block \<Rightarrow> Blockchain \<Rightarrow> Block" where
  "addBlock_finalize e now block self =
     (let b1 = block\<lparr>Block.height := int (length (chain self))\<rparr>;
          b2 = b1\<lparr>time := seconds_string now\<rparr>;
          b3 = (if Blockchain.height self > 0
                then (case getBlockByHeight self (Block.height b2 - 1) of
                        None \<Rightarrow> b2
                      | Some prevBlock \<Rightarrow> b2\<lparr>previousBlockHash := hash prevBlock\<rparr>)
                else b2)
      in b3\<lparr>hash := Some (SHA256 e (stringify e b3))\<rparr>)"

text \<open>
  \<^verbatim>\<open>_addBlock(block)\<close>: the finalised block is validated; an invalid one rejects before
  anything is pushed. Otherwise the block is pushed, the height is set to the length of the
  array, and the chain is validated. A rejection of \<^verbatim>\<open>validateChain\<close> would throw at the
  \<^verbatim>\<open>await\<close> inside the \<^verbatim>\<open>async\<close> executor and leave the promise pending. The result is the
  promise and the state of the chain.
\<close>

definition addBlock :: "env \<Rightarrow> nat \<Rightarrow> Block \<Rightarrow> Blockchain \<Rightarrow> (Block, error) promise \<times> Blockchain" where
  "addBlock e now block0 self =
     (let block = addBlock_finalize e now block0 self in
      if \<not> validate e block
      then (Rejected (Error (''Block is invalid '' @ str_of (hash block))), self)
      else
        (let self' = self\<lparr>chain := chain self @ [block],
                           height := int (length (chain self @ [block]))\<rparr>
         in case validateChain e self' of
              Resolved isValidChain \<Rightarrow>
                if \<not> isValidChain
                then (Rejected (Error (''Chain is invalid after adding block '' @ str_of (hash block))), self')
                else (Resolved block, self')
            | Rejected errorLog \<Rightarrow> (Pending, self')
            | Pending \<Rightarrow> (Pending, self')))"

text \<open>
  \<^verbatim>\<open>initializeChain\<close>, called by the constructor: when the height is \<open>-1\<close> the genesis
  block is added. The constructor does not wait for it: it returns with the array empty,
  the height \<open>-1\<close> and the append suspended. \<open>Blockchain_new\<close> is the chain once that
  append has settled with no other call made before; calls made in the run of the
  constructor are the subject of \<open>addBlock_async\<close> below.
\<close>

definition initializeChain :: "env \<Rightarrow> nat \<Rightarrow> Blockchain \<Rightarrow> Blockchain" where
  "initializeChain e now self =
     (if Blockchain.height self = - 1
      then snd (addBlock e now (Block_new (GenesisData ''Genesis Block'')) self)
      else self)"

definition Blockchain_new :: "env \<Rightarrow> nat \<Rightarrow> Blockchain" where
  "Blockchain_new e now = initializeChain e now Blockchain_empty"

text \<open>
  \<^verbatim>\<open>submitStar(address, message, signature, star)\<close>. The clock reads \<open>now\<close> in
  \<^verbatim>\<open>submitStar\<close> and \<open>now'\<close> in \<^verbatim>\<open>_addBlock\<close>. When \<^verbatim>\<open>verify\<close> throws, or when the
  promise of \<^verbatim>\<open>_addBlock\<close> rejects at the \<^verbatim>\<open>await\<close>, the \<^verbatim>\<open>async\<close> executor throws and
  the promise of \<^verbatim>\<open>submitStar\<close> stays pending.
\<close>

definition submitStar ::
  "env \<Rightarrow> nat \<Rightarrow> nat \<Rightarrow> string \<Rightarrow> string \<Rightarrow> string \<Rightarrow> star \<Rightarrow> Blockchain
     \<Rightarrow> (Block, error) promise \<times> Blockchain" where
  "submitStar e now now' address message signature star self =
     (let time = parseInt (component (split (CHR '':'') message) 1);
          curTime = parseInt (seconds_string now);
          timeDiff5mins = 5 * 60 * 1000
      in if greater_number (minus_number curTime time) timeDiff5mins
         then (Rejected (Error ''More than 5 minutes have elapsed''), self)
         else
           (case verify e message address signature of
              None \<Rightarrow> (Pending, self)
            | Some verified \<Rightarrow>
                if \<not> verified then (Rejected (Error ''Failed to verify message''), self)
                else
                  (case addBlock e now' (Block_new (StarData address message signature star)) self of
                     (Resolved added, self') \<Rightarrow>
                        (Resolved added, self')
                   | (Rejected err, self') \<Rightarrow> (Pending, self')
                   | (Pending, self') \<Rightarrow> (Pending, self'))))"

text \<open>
  The callback of \<^verbatim>\<open>getStarsByWalletAddress\<close> on one block; the state is the array
  \<^verbatim>\<open>stars\<close>. It calls \<^verbatim>\<open>block.getBData()\<close> and waits; resumed, it throws when the
  promise was rejected, and pushes \<^verbatim>\<open>body.star\<close> when \<^verbatim>\<open>body.address\<close> is the address asked
  for. A genesis payload has no field \<^verbatim>\<open>address\<close>: \<^verbatim>\<open>undefined\<close> is no string.
\<close>

definition getStars_callback :: "env \<Rightarrow> string \<Rightarrow> Block \<Rightarrow> star list \<Rightarrow> star list async" where
  "getStars_callback e address block stars =
     Await stars (\<lambda>stars.
       case getBData e block of
         None \<Rightarrow> Threw stars
       | Some (GenesisData d) \<Rightarrow> Done stars
       | Some (StarData a m s star) \<Rightarrow> if a = address then Done (stars @ [star]) else Done stars)"

text \<open>
  \<^verbatim>\<open>getStarsByWalletAddress(address)\<close> resolves with the array \<^verbatim>\<open>stars\<close> itself, in the
  synchronous run that started the callbacks; the callbacks, suspended in the queue, push
  into the same array afterwards. The first component is the content of the array when
  \<^verbatim>\<open>resolve(stars)\<close> runs, the second the suspended callbacks.
\<close>

definition getStarsByWalletAddress ::
  "env \<Rightarrow> string \<Rightarrow> Blockchain \<Rightarrow> star list \<times> (star list \<Rightarrow> star list async) list" where
  "getStarsByWalletAddress e address self =
     forEach_async (getStars_callback e address) (chain self) []"

text \<open>
  What a caller reads that waits for the promise (\<^verbatim>\<open>await\<close> or \<^verbatim>\<open>then\<close>): its reaction
  is queued behind the callbacks suspended by \<^verbatim>\<open>forEach\<close>, so it sees the array after one
  pass of the queue over them.
\<close>

definition awaited :: "'s \<times> ('s \<Rightarrow> 's async) list \<Rightarrow> 's" where
  "awaited r = fst (run_jobs (snd r) (fst r))"

text \<open>
  \<^verbatim>\<open>requestMessageOwnershipVerification(address)\<close>.
\<close>

definition requestMessageOwnershipVerification :: "nat \<Rightarrow> string \<Rightarrow> string" where
  "requestMessageOwnershipVerification now address =
     address @ '':'' @ seconds_string now @ '':'' @ ''starRegistry''"

subsection \<open>Sequences of calls\<close>

text \<open>
  A client calls \<^verbatim>\<open>submitStar\<close>, and \<^verbatim>\<open>_addBlock\<close> is private by convention only. A
  history is a list of such calls on a chain, each with the readings of the clock.
  \<open>calls_state\<close> is the state after a history in which every call has settled before the
  next is made, as when each call is awaited in a run of its own.
\<close>

datatype call =
    Call_addBlock nat Block
  | Call_submitStar nat nat string string string star

fun call_state :: "env \<Rightarrow> call \<Rightarrow> Blockchain \<Rightarrow> Blockchain" where
  "call_state e (Call_addBlock now block) self = snd (addBlock e now block self)"
| "call_state e (Call_submitStar now now' address message signature star) self =
     snd (submitStar e now now' address message signature star self)"

fun calls_state :: "env \<Rightarrow> call list \<Rightarrow> Blockchain \<Rightarrow> Blockchain" where
  "calls_state e [] self = self"
| "calls_state e (c # cs) self = calls_state e cs (call_state e c self)"

subsection \<open>Calls that overlap\<close>

text \<open>
  \<^verbatim>\<open>_addBlock\<close> with its \<^verbatim>\<open>await\<close>s, as a callback over the state of the chain: calls
  made in one synchronous run each go to their first \<^verbatim>\<open>await\<close>, and their continuations
  take turns in the queue. Every promise awaited is settled when it is awaited, so each
  \<^verbatim>\<open>await\<close> takes one turn.

  \<open>addBlock_rest\<close> is the body from line 81: the hash is set and \<^verbatim>\<open>block.validate()\<close>
  called; resumed, an invalid block rejects, and a valid one is pushed onto the array as it
  is then, the height is set to the length, and \<^verbatim>\<open>validateChain()\<close> is called; resumed,
  the promise is settled. The callbacks that \<^verbatim>\<open>validateChain\<close> leaves in the queue touch
  only its \<^verbatim>\<open>errorLog\<close>.
\<close>

definition addBlock_rest :: "env \<Rightarrow> Block \<Rightarrow> Blockchain \<Rightarrow> Blockchain async" where
  "addBlock_rest e b self =
     (let block = b\<lparr>hash := Some (SHA256 e (stringify e b))\<rparr> in
      Await self (\<lambda>self.
        if \<not> validate e block then Done self
        else
          (let self' = self\<lparr>chain := chain self @ [block],
                             height := int (length (chain self @ [block]))\<rparr>
           in case validateChain e self' of
                Resolved isValidChain \<Rightarrow> Await self' (\<lambda>self. Done self)
              | Rejected errorLog \<Rightarrow> Await self' (\<lambda>self. Threw self)
              | Pending \<Rightarrow> Await self' (\<lambda>self. Done self))))"

text \<open>
  Lines 69 to 79: the height of the block is the length of the array as it is when the call
  is made, and \<^verbatim>\<open>getChainHeight()\<close> resolves with the stored height as it is then.
  Resumed, a positive height calls \<^verbatim>\<open>getBlockByHeight\<close>, which reads the array as it is
  at that turn, and waits once more for the previous hash.
\<close>

definition addBlock_async :: "env \<Rightarrow> nat \<Rightarrow> Block \<Rightarrow> Blockchain \<Rightarrow> Blockchain async" where
  "addBlock_async e now block0 self =
     (let b1 = block0\<lparr>Block.height := int (length (chain self))\<rparr>;
          b2 = b1\<lparr>time := seconds_string now\<rparr>;
          chainHeight = Blockchain.height self
      in Await self (\<lambda>self.
           if chainHeight > 0
           then
             (let prev = getBlockByHeight self (Block.height b2 - 1) in
              Await self (\<lambda>self.
                addBlock_rest e
                  (case prev of
                     None \<Rightarrow> b2
                   | Some prevBlock \<Rightarrow> b2\<lparr>previousBlockHash := hash prevBlock\<rparr>)
                  self))
           else addBlock_rest e b2 self))"

text \<open>The constructor's call of \<^verbatim>\<open>initializeChain\<close>, on the state the constructor set.\<close>

definition initializeChain_async :: "env \<Rightarrow> nat \<Rightarrow> Blockchain \<Rightarrow> Blockchain async" where
  "initializeChain_async e now self =
     (if Blockchain.height self = - 1
      then addBlock_async e now (Block_new (GenesisData ''Genesis Block'')) self
      else Done self)"

text \<open>
  \<^verbatim>\<open>submitStar\<close>: the time is checked and the signature verified in the run of the call,
  and \<^verbatim>\<open>_addBlock\<close> is called in that run.
\<close>

definition submitStar_async ::
  "env \<Rightarrow> nat \<Rightarrow> nat \<Rightarrow> string \<Rightarrow> string \<Rightarrow> string \<Rightarrow> star \<Rightarrow> Blockchain
     \<Rightarrow> Blockchain async" where
  "submitStar_async e now now' address message signature star self =
     (let time = parseInt (component (split (CHR '':'') message) 1);
          curTime = parseInt (seconds_string now);
          timeDiff5mins = 5 * 60 * 1000
      in if greater_number (minus_number curTime time) timeDiff5mins then Done self
         else
           (case verify e message address signature of
              None \<Rightarrow> Threw self
            | Some verified \<Rightarrow>
                if \<not> verified then Done self
                else addBlock_async e now' (Block_new (StarData address message signature star)) self))"

fun call_async :: "env \<Rightarrow> call \<Rightarrow> Blockchain \<Rightarrow> Blockchain async" where
  "call_async e (Call_addBlock now block) self = addBlock_async e now block self"
| "call_async e (Call_submitStar now now' address message signature star) self =
     submitStar_async e now now' address message signature star self"

text \<open>
  \<open>n\<close> passes of the queue. The first pass over calls made in one run is that run; a
  call has at most four \<^verbatim>\<open>await\<close>s, so five passes settle every call.
\<close>

fun run_passes :: "nat \<Rightarrow> ('s \<Rightarrow> 's async) list \<Rightarrow> 's \<Rightarrow> 's \<times> ('s \<Rightarrow> 's async) list" where
  "run_passes 0 q s = (s, q)"
| "run_passes (Suc n) q s = (case run_jobs q s of (s', q') \<Rightarrow> run_passes n q' s')"

text \<open>
  A callback keeps a property of the state when every state it leaves behind has the
  property, provided every state it is resumed in has it.
\<close>

primrec preserves :: "('s \<Rightarrow> bool) \<Rightarrow> 's async \<Rightarrow> bool" where
  "preserves P (Done s) = P s"
| "preserves P (Threw s) = P s"
| "preserves P (Await s k) = (P s \<and> (\<forall>s'. P s' \<longrightarrow> preserves P (k s')))"

definition jobs_preserve :: "('s \<Rightarrow> bool) \<Rightarrow> ('s \<Rightarrow> 's async) list \<Rightarrow> bool" where
  "jobs_preserve P q = (\<forall>j\<in>set q. \<forall>s. P s \<longrightarrow> preserves P (j s))"

text \<open>How many \<^verbatim>\<open>await\<close>s a callback can still meet.\<close>

primrec awaits_at_most :: "'s async \<Rightarrow> nat \<Rightarrow> bool" where
  "awaits_at_most (Done s) n = True"
| "awaits_at_most (Threw s) n = True"
| "awaits_at_most (Await s k) n = (case n of 0 \<Rightarrow> False | Suc m \<Rightarrow> (\<forall>s'. awaits_at_most (k s') m))"

definition jobs_settle :: "nat \<Rightarrow> ('s \<Rightarrow> 's async) list \<Rightarrow> bool" where
  "jobs_settle n q = (\<forall>j\<in>set q. \<forall>s. awaits_at_most (j s) n)"

text \<open>
  A history of runs: the calls of one run are made one after the other in that run, and the
  queue is empty before the next run starts. \<open>Blockchain_run\<close> is the run of the
  constructor, with the calls made in it after \<^verbatim>\<open>new Blockchain()\<close>.
\<close>

fun runs_state :: "env \<Rightarrow> call list list \<Rightarrow> Blockchain \<Rightarrow> Blockchain" where
  "runs_state e [] self = self"
| "runs_state e (cs # runs) self =
     runs_state e runs (fst (run_passes 5 (map (call_async e) cs) self))"

definition Blockchain_run :: "env \<Rightarrow> nat \<Rightarrow> call list \<Rightarrow> Blockchain" where
  "Blockchain_run e now cs =
     fst (run_passes 5 (initializeChain_async e now # map (call_async e) cs) Blockchain_empty)"

subsection \<open>A concrete environment\<close>

text \<open>
  Stand-ins for the libraries, small enough to evaluate: the digest marks its argument, the
  serialisation lists the fields in the order of the record, a block is valid when its hash
  is the digest of its serialisation with the hash unset, the payload of a block above
  height 0 decodes to itself, and a signature is the address after \<^verbatim>\<open>sig-\<close>.
\<close>

definition data_string :: "data \<Rightarrow> string" where
  "data_string d =
     (case d of GenesisData g \<Rightarrow> g | StarData a m s star \<Rightarrow> a @ ''/'' @ star)"

fun int_string :: "int \<Rightarrow> string" where
  "int_string i = (if i < 0 then ''-'' @ toString (nat (- i)) else toString (nat i))"

definition toy_stringify :: "Block \<Rightarrow> string" where
  "toy_stringify b =
     ''{'' @ str_of (hash b) @ '','' @ int_string (Block.height b) @ '','' @ data_string (body b)
       @ '','' @ time b @ '','' @ str_of (previousBlockHash b) @ ''}''"

definition toy_env :: env where
  "toy_env =
     \<lparr>SHA256 = (\<lambda>s. ''#'' @ s),
      stringify = toy_stringify,
      validate = (\<lambda>b. hash b = Some (''#'' @ toy_stringify (b\<lparr>hash := None\<rparr>))),
      getBData = (\<lambda>b. if Block.height b > 0 then Some (body b) else None),
      verify = (\<lambda>message address signature. Some (signature = ''sig-'' @ address))\<rparr>"

text \<open>
  The blocks and chains that the stand-ins produce: the chain after construction with the
  clock at 5000 ms, and after a star of address \<^verbatim>\<open>X\<close> is then added with the clock at
  1302000 ms. \<open>toy_stale\<close> is a block handed to \<^verbatim>\<open>_addBlock\<close> with a hash already set.
\<close>

definition toy_block0 :: Block where
  "toy_block0 =
     \<lparr>hash = Some ''#{null,0,Genesis Block,5,null}'', height = 0,
      body = GenesisData ''Genesis Block'', time = ''5'', previousBlockHash = None\<rparr>"

definition toy_block1 :: Block where
  "toy_block1 =
     \<lparr>hash = Some ''#{null,1,X/s1,1302,#{null,0,Genesis Block,5,null}}'', height = 1,
      body = StarData ''X'' ''X:1000:starRegistry'' ''sig-X'' ''s1'', time = ''1302'',
      previousBlockHash = Some ''#{null,0,Genesis Block,5,null}''\<rparr>"

definition toy_chain0 :: Blockchain where
  "toy_chain0 = \<lparr>chain = [toy_block0], height = 1\<rparr>"

definition toy_chain1 :: Blockchain where
  "toy_chain1 = \<lparr>chain = [toy_block0, toy_block1], height = 2\<rparr>"

definition toy_stale :: Block where
  "toy_stale = (Block_new (StarData ''X'' ''X:1000:starRegistry'' ''sig-X'' ''s1''))\<lparr>hash := Some ''old''\<rparr>"

text \<open>
  Two more stars, of addresses \<^verbatim>\<open>Y\<close> and \<^verbatim>\<open>X\<close>, and the chain after the three calls.
\<close>

definition toy_block2 :: Block where
  "toy_block2 =
     \<lparr>hash = Some ''#{null,2,Y/s2,1401,#{null,1,X/s1,1302,#{null,0,Genesis Block,5,null}}}'',
      height = 2, body = StarData ''Y'' ''Y:1399:starRegistry'' ''sig-Y'' ''s2'', time = ''1401'',
      previousBlockHash = Some ''#{null,1,X/s1,1302,#{null,0,Genesis Block,5,null}}''\<rparr>"

definition toy_block3 :: Block where
  "toy_block3 =
     \<lparr>hash = Some ''#{null,3,X/s3,1501,#{null,2,Y/s2,1401,#{null,1,X/s1,1302,#{null,0,Genesis Block,5,null}}}}'',
      height = 3, body = StarData ''X'' ''X:1499:starRegistry'' ''sig-X'' ''s3'', time = ''1501'',
      previousBlockHash = Some ''#{null,2,Y/s2,1401,#{null,1,X/s1,1302,#{null,0,Genesis Block,5,null}}}''\<rparr>"

definition toy_calls :: "call list" where
  "toy_calls =
     [Call_submitStar 1301000 1302000 ''X'' ''X:1000:starRegistry'' ''sig-X'' ''s1'',
      Call_submitStar 1400000 1401000 ''Y'' ''Y:1399:starRegistry'' ''sig-Y'' ''s2'',
      Call_submitStar 1500000 1501000 ''X'' ''X:1499:starRegistry'' ''sig-X'' ''s3'']"

definition toy_chain3 :: Blockchain where
  "toy_chain3 = \<lparr>chain = [toy_block0, toy_block1, toy_block2, toy_block3], height = 4\<rparr>"

text \<open>The block that a message without a colon produces.\<close>

definition toy_block_abc :: Block where
  "toy_block_abc = toy_block1\<lparr>body := StarData ''X'' ''abc'' ''sig-X'' ''s1''\<rparr>"

text \<open>
  A chain whose second block was changed after it was hashed, and a chain that holds a
  block above height 0 without the block its previous hash names.
\<close>

definition toy_tampered_block :: Block where
  "toy_tampered_block = toy_block1\<lparr>body := StarData ''Z'' ''X:1000:starRegistry'' ''sig-X'' ''s1''\<rparr>"

definition toy_tampered :: Blockchain where
  "toy_tampered = \<lparr>chain = [toy_block0, toy_tampered_block], height = 2\<rparr>"

definition toy_orphan :: Blockchain where
  "toy_orphan = \<lparr>chain = [toy_block1], height = 1\<rparr>"

text \<open>
  The blocks of calls that overlap: a star submitted in the run of the constructor, and a
  second star submitted in the same run as the first.
\<close>

definition toy_block_early :: Block where
  "toy_block_early =
     \<lparr>hash = Some ''#{null,0,X/s1,1302,null}'', height = 0,
      body = StarData ''X'' ''X:1000:starRegistry'' ''sig-X'' ''s1'', time = ''1302'',
      previousBlockHash = None\<rparr>"


subsection \<open>Invariants of the chain\<close>


text \<open>
  The stored height is \<open>-1\<close> while the array is empty and the length of the array
  afterwards.
\<close>

definition height_is_length :: "Blockchain \<Rightarrow> bool" where
  "height_is_length self =
     (Blockchain.height self = (if chain self = [] then - 1 else int (length (chain self))))"

subsection \<open>The stars of an address, as the specification words it\<close>

text \<open>
  The stars of the blocks, in the order of the chain, whose payload decodes to an
  ownership record of the address; a block whose payload does not decode is skipped.
\<close>

definition stars_of_address :: "env \<Rightarrow> string \<Rightarrow> Block list \<Rightarrow> star list" where
  "stars_of_address e address blocks =
     concat (map (\<lambda>block.
       case getBData e block of
         None \<Rightarrow> []
       | Some (GenesisData d) \<Rightarrow> []
       | Some (StarData a m s star) \<Rightarrow> if a = address then [star] else []) blocks)"

section \<open>Properties\<close>

subsection \<open>Whole-chain validation and the append protocol\<close>

text \<open>
  No callback of \<^verbatim>\<open>validateChain\<close> pushes before its first \<^verbatim>\<open>await\<close>, so
  \<^verbatim>\<open>errorLog\<close> is empty when \<^verbatim>\<open>forEach\<close> returns and the promise resolves with
  \<^verbatim>\<open>true\<close>, whatever the chain holds.
\<close>

lemma validateChain_callback_cases:
  "validateChain_callback e self block errorLog = Done errorLog \<or>
   (\<exists>k. validateChain_callback e self block errorLog = Await errorLog k)"
  by (simp add: validateChain_callback_def)

lemma run_jobs_validateChain_callback:
  "fst (run_jobs (map (validateChain_callback e self) bs) errorLog) = errorLog"
proof (induction bs)
  case Nil
  show ?case by simp
next
  case (Cons block bs)
  obtain log' jobs where r: "run_jobs (map (validateChain_callback e self) bs) errorLog = (log', jobs)"
    by (cases "run_jobs (map (validateChain_callback e self) bs) errorLog")
  with Cons.IH have "log' = errorLog" by simp
  with r validateChain_callback_cases [of e self block errorLog] show ?case by auto
qed

lemma validateChain_resolves_true: "validateChain e self = Resolved True"
proof -
  have "fst (forEach_async (validateChain_callback e self) (chain self) []) = []"
    unfolding forEach_async_def by (rule run_jobs_validateChain_callback)
  then show ?thesis
    by (auto simp: validateChain_def split: prod.splits)
qed

lemma addBlock_invalid:
  "\<not> validate e (addBlock_finalize e now block self) \<Longrightarrow>
     addBlock e now block self =
       (Rejected (Error (''Block is invalid '' @ str_of (hash (addBlock_finalize e now block self)))), self)"
  by (simp add: addBlock_def Let_def)

lemma addBlock_valid:
  "validate e (addBlock_finalize e now block self) \<Longrightarrow>
     addBlock e now block self =
       (Resolved (addBlock_finalize e now block self),
        self\<lparr>chain := chain self @ [addBlock_finalize e now block self],
             height := int (length (chain self)) + 1\<rparr>)"
  by (simp add: addBlock_def Let_def validateChain_resolves_true)

lemma addBlock_Resolved:
  assumes "addBlock e now block self = (Resolved added, self')"
  shows "added = addBlock_finalize e now block self"
    and "self' = self\<lparr>chain := chain self @ [added], height := int (length (chain self)) + 1\<rparr>"
    and "validate e added"
  using assms
  by (cases "validate e (addBlock_finalize e now block self)";
      simp add: addBlock_invalid addBlock_valid; fastforce)+

lemma finalize_height: "Block.height (addBlock_finalize e now block self) = int (length (chain self))"
  by (simp add: addBlock_finalize_def Let_def split: option.splits)

lemma finalize_time: "time (addBlock_finalize e now block self) = seconds_string now"
  by (simp add: addBlock_finalize_def Let_def split: option.splits)

lemma finalize_body: "body (addBlock_finalize e now block self) = body block"
  by (simp add: addBlock_finalize_def Let_def split: option.splits)

lemma finalize_hash:
  "hash (addBlock_finalize e now block self) =
     Some (SHA256 e (stringify e ((addBlock_finalize e now block self)\<lparr>hash := hash block\<rparr>)))"
  by (simp add: addBlock_finalize_def Let_def split: option.splits)

lemma finalize_previous:
  "previousBlockHash (addBlock_finalize e now block self) =
     (if Blockchain.height self > 0
      then (case getBlockByHeight self (int (length (chain self)) - 1) of
              None \<Rightarrow> previousBlockHash block
            | Some prevBlock \<Rightarrow> hash prevBlock)
      else previousBlockHash block)"
  by (simp add: addBlock_finalize_def Let_def split: option.splits)


subsection \<open>Evaluation on the concrete environment\<close>

lemmas eval_defs =
  Blockchain_new_def initializeChain_def Blockchain_empty_def addBlock_def addBlock_finalize_def
  Let_def validateChain_resolves_true toy_env_def toy_stringify_def seconds_string_def
  slice_0_m3_def toString.simps digitChar_def str_of_def data_string_def Block_new_def
  getBlockByHeight_def submitStar_def parseInt_def component_def digitOf_def isWhiteSpace_def
  minus_number_def greater_number_def toy_chain0_def toy_chain1_def toy_block0_def toy_block1_def

text \<open>The message that a request at 1000 seconds hands out for the address \<^verbatim>\<open>X\<close>.\<close>

lemma toy_request:
  "requestMessageOwnershipVerification 1000999 ''X'' = ''X:1000:starRegistry''"
  by (simp add: requestMessageOwnershipVerification_def seconds_string_def slice_0_m3_def
        toString.simps digitChar_def)

lemma toy_Blockchain_new: "Blockchain_new toy_env 5000 = toy_chain0"
  by (simp add: eval_defs)

lemma toy_addBlock1:
  "addBlock toy_env 1302000 (Block_new (StarData ''X'' ''X:1000:starRegistry'' ''sig-X'' ''s1'')) toy_chain0
     = (Resolved toy_block1, toy_chain1)"
  by (simp add: eval_defs)

lemma toy_submitStar1:
  "submitStar toy_env 1301000 1302000 ''X'' ''X:1000:starRegistry'' ''sig-X'' ''s1'' toy_chain0 =
   (Resolved toy_block1, toy_chain1)"
  by (simp add: eval_defs)






text \<open>
  Claim C2. \<^verbatim>\<open>validateChain()\<close> reports success immediately after construction and
  again after every append that completes successfully. The executor of \<^verbatim>\<open>validateChain\<close>
  reads \<^verbatim>\<open>errorLog\<close> before any suspended callback has run, so the promise resolves with
  \<^verbatim>\<open>true\<close>: after construction, after a successful \<^verbatim>\<open>_addBlock\<close>, and after any
  history of calls.
\<close>
theorem validateChain_after_construction_and_append:
  "validateChain e (Blockchain_new e now) = Resolved True \<and>
   (addBlock e t block self = (Resolved added, self') \<longrightarrow> validateChain e self' = Resolved True) \<and>
   validateChain e (calls_state e cs (Blockchain_new e now)) = Resolved True"
proof (intro conjI impI)
  show "validateChain e (Blockchain_new e now) = Resolved True"
    by (rule validateChain_resolves_true)
  show "validateChain e self' = Resolved True"
    by (rule validateChain_resolves_true)
  show "validateChain e (calls_state e cs (Blockchain_new e now)) = Resolved True"
    by (rule validateChain_resolves_true)
qed

theorem validateChain_after_construction_and_append_witness:
  "validateChain toy_env (Blockchain_new toy_env 5000) = Resolved True \<and>
   addBlock toy_env 1302000 (Block_new (StarData ''X'' ''X:1000:starRegistry'' ''sig-X'' ''s1'')) toy_chain0
     = (Resolved toy_block1, toy_chain1) \<and>
   validateChain toy_env toy_chain1 = Resolved True"
  using validateChain_after_construction_and_append
    [of toy_env 5000 1302000 "Block_new (StarData ''X'' ''X:1000:starRegistry'' ''sig-X'' ''s1'')"
        toy_chain0 toy_block1 toy_chain1 "[]"]
    toy_addBlock1
  by simp

text \<open>
  Claim C8. If the block just finalised fails \<^verbatim>\<open>block.validate()\<close>, \<^verbatim>\<open>_addBlock\<close>
  rejects with \<^verbatim>\<open>Block is invalid\<close> and the chain state, the array of blocks and the
  stored height, is what it was before the call.
\<close>
theorem addBlock_invalid_block_rejected:
  assumes "\<not> validate e (addBlock_finalize e now block self)"
  shows "fst (addBlock e now block self) =
           Rejected (Error (''Block is invalid '' @ str_of (hash (addBlock_finalize e now block self)))) \<and>
         snd (addBlock e now block self) = self \<and>
         chain (snd (addBlock e now block self)) = chain self \<and>
         Blockchain.height (snd (addBlock e now block self)) = Blockchain.height self"
  using assms by (simp add: addBlock_invalid)

lemma toy_stale_invalid: "\<not> validate toy_env (addBlock_finalize toy_env 1302000 toy_stale toy_chain0)"
  by (simp add: eval_defs toy_stale_def)

theorem addBlock_invalid_block_rejected_witness:
  "\<not> validate toy_env (addBlock_finalize toy_env 1302000 toy_stale toy_chain0) \<and>
   fst (addBlock toy_env 1302000 toy_stale toy_chain0) =
     Rejected (Error ''Block is invalid #{old,1,X/s1,1302,#{null,0,Genesis Block,5,null}}'') \<and>
   snd (addBlock toy_env 1302000 toy_stale toy_chain0) = toy_chain0"
proof -
  have h: "hash (addBlock_finalize toy_env 1302000 toy_stale toy_chain0) =
             Some ''#{old,1,X/s1,1302,#{null,0,Genesis Block,5,null}}''"
    by (simp add: eval_defs toy_stale_def)
  from addBlock_invalid_block_rejected [OF toy_stale_invalid] toy_stale_invalid h
  show ?thesis by (simp add: str_of_def)
qed

text \<open>
  Claim C9. During an append the stored hash is the digest of the serialisation of the
  block as it is once height, time and previous hash are assigned, with the field
  \<^verbatim>\<open>hash\<close> as the block came: unset for a block fresh from the constructor, so that the
  digest covers every field but the hash. The block appended carries the fields assigned.
\<close>
theorem addBlock_hash_commits_to_fields:
  assumes "addBlock e now block self = (Resolved added, self')"
  shows "hash added = Some (SHA256 e (stringify e (added\<lparr>hash := hash block\<rparr>))) \<and>
         (hash block = None \<longrightarrow>
            hash added = Some (SHA256 e (stringify e (added\<lparr>hash := None\<rparr>)))) \<and>
         Block.height added = int (length (chain self)) \<and>
         time added = seconds_string now \<and>
         previousBlockHash added =
           (if Blockchain.height self > 0
            then (case getBlockByHeight self (int (length (chain self)) - 1) of
                    None \<Rightarrow> previousBlockHash block
                  | Some prevBlock \<Rightarrow> hash prevBlock)
            else previousBlockHash block) \<and>
         body added = body block \<and>
         chain self' = chain self @ [added]"
proof -
  from addBlock_Resolved [OF assms]
  have a: "added = addBlock_finalize e now block self"
    and s: "self' = self\<lparr>chain := chain self @ [added], height := int (length (chain self)) + 1\<rparr>"
    by simp_all
  have h: "hash added = Some (SHA256 e (stringify e (added\<lparr>hash := hash block\<rparr>)))"
    unfolding a by (rule finalize_hash)
  then have "hash block = None \<longrightarrow>
            hash added = Some (SHA256 e (stringify e (added\<lparr>hash := None\<rparr>)))"
    by auto
  moreover have "chain self' = chain self @ [added]"
    using s by simp
  moreover have "Block.height added = int (length (chain self))" "time added = seconds_string now"
    "body added = body block"
    by (simp_all add: a finalize_height finalize_time finalize_body)
  moreover have "previousBlockHash added =
           (if Blockchain.height self > 0
            then (case getBlockByHeight self (int (length (chain self)) - 1) of
                    None \<Rightarrow> previousBlockHash block
                  | Some prevBlock \<Rightarrow> hash prevBlock)
            else previousBlockHash block)"
    unfolding a by (rule finalize_previous)
  ultimately show ?thesis using h by blast
qed

theorem addBlock_hash_commits_to_fields_witness:
  "addBlock toy_env 1302000 (Block_new (StarData ''X'' ''X:1000:starRegistry'' ''sig-X'' ''s1'')) toy_chain0
     = (Resolved toy_block1, toy_chain1) \<and>
   hash (Block_new (StarData ''X'' ''X:1000:starRegistry'' ''sig-X'' ''s1'')) = None \<and>
   hash toy_block1 = Some (SHA256 toy_env (stringify toy_env (toy_block1\<lparr>hash := None\<rparr>))) \<and>
   Block.height toy_block1 = 1 \<and> time toy_block1 = ''1302'' \<and>
   previousBlockHash toy_block1 = hash toy_block0"
proof -
  have n: "hash (Block_new (StarData ''X'' ''X:1000:starRegistry'' ''sig-X'' ''s1'')) = None"
    by (simp add: Block_new_def)
  from addBlock_hash_commits_to_fields [OF toy_addBlock1] n
  have "hash toy_block1 = Some (SHA256 toy_env (stringify toy_env (toy_block1\<lparr>hash := None\<rparr>)))"
    by blast
  with n toy_addBlock1 show ?thesis
    by (simp add: toy_block1_def toy_block0_def)
qed

subsection \<open>Calls that overlap\<close>

text \<open>A call that runs alone does what the model of one call at a time says.\<close>

lemma addBlock_async_alone:
  "finish (addBlock_async e now block self) = snd (addBlock e now block self)"
  by (simp add: addBlock_async_def addBlock_rest_def addBlock_def addBlock_finalize_def Let_def
        validateChain_resolves_true split: option.splits)




lemma run_jobs_preserves:
  assumes "jobs_preserve P q" and "P s"
  shows "P (fst (run_jobs q s)) \<and> jobs_preserve P (snd (run_jobs q s))"
  using assms
proof (induction q arbitrary: s)
  case Nil
  then show ?case by (simp add: jobs_preserve_def)
next
  case (Cons k q)
  from Cons.prems have pk: "preserves P (k s)" and pq: "jobs_preserve P q"
    by (simp_all add: jobs_preserve_def)
  show ?case
  proof (cases "k s")
    case (Done s')
    with pk have "P s'" by simp
    with Cons.IH [OF pq] Done show ?thesis by simp
  next
    case (Threw s')
    with pk have "P s'" by simp
    with Cons.IH [OF pq] Threw show ?thesis by simp
  next
    case (Await s' k')
    with pk have s': "P s'" and k': "\<forall>s''. P s'' \<longrightarrow> preserves P (k' s'')" by simp_all
    from Cons.IH [OF pq s'] k' Await show ?thesis
      by (auto simp: jobs_preserve_def split: prod.splits)
  qed
qed

lemma run_passes_preserves:
  assumes "jobs_preserve P q" and "P s"
  shows "P (fst (run_passes n q s)) \<and> jobs_preserve P (snd (run_passes n q s))"
  using assms
proof (induction n arbitrary: q s)
  case 0
  then show ?case by simp
next
  case (Suc n)
  from run_jobs_preserves [OF Suc.prems]
  have "P (fst (run_jobs q s))" and "jobs_preserve P (snd (run_jobs q s))" by simp_all
  from Suc.IH [OF this(2) this(1)] show ?case
    by (simp add: case_prod_beta)
qed

lemma run_jobs_settle_0:
  assumes "jobs_settle 0 q"
  shows "snd (run_jobs q s) = []"
  using assms
proof (induction q arbitrary: s)
  case Nil
  then show ?case by simp
next
  case (Cons k q)
  from Cons.prems have k: "awaits_at_most (k s) 0" and q: "jobs_settle 0 q"
    by (simp_all add: jobs_settle_def)
  from k Cons.IH [OF q] show ?case
    by (cases "k s") simp_all
qed

lemma run_jobs_settle_Suc:
  assumes "jobs_settle (Suc n) q"
  shows "jobs_settle n (snd (run_jobs q s))"
  using assms
proof (induction q arbitrary: s)
  case Nil
  then show ?case by (simp add: jobs_settle_def)
next
  case (Cons k q)
  from Cons.prems have k: "awaits_at_most (k s) (Suc n)" and q: "jobs_settle (Suc n) q"
    by (simp_all add: jobs_settle_def)
  show ?case
  proof (cases "k s")
    case (Await s' k')
    with k have "\<forall>s''. awaits_at_most (k' s'') n" by simp
    with Cons.IH [OF q, of s'] Await show ?thesis
      by (auto simp: jobs_settle_def split: prod.splits)
  qed (use Cons.IH [OF q] in simp_all)
qed

lemma run_passes_settle:
  assumes "jobs_settle n q"
  shows "snd (run_passes (Suc n) q s) = []"
  using assms
proof (induction n arbitrary: q s)
  case 0
  then show ?case by (simp add: run_jobs_settle_0 case_prod_beta)
next
  case (Suc n)
  from run_jobs_settle_Suc [OF Suc.prems] have "jobs_settle n (snd (run_jobs q s))" .
  from Suc.IH [OF this, of "fst (run_jobs q s)"] show ?case
    by (simp add: case_prod_beta)
qed

lemma addBlock_rest_awaits: "awaits_at_most (addBlock_rest e b s) 2"
  by (simp add: addBlock_rest_def Let_def validateChain_resolves_true numeral_2_eq_2)

lemma awaits_at_most_mono: "awaits_at_most c n \<Longrightarrow> awaits_at_most c (Suc n)"
  by (induction c arbitrary: n) (auto split: nat.splits)

lemma addBlock_async_awaits: "awaits_at_most (addBlock_async e now block s) 4"
proof -
  have r2: "\<And>b s. awaits_at_most (addBlock_rest e b s) (Suc (Suc 0))"
    using addBlock_rest_awaits by (simp add: numeral_2_eq_2)
  then have r3: "\<And>b s. awaits_at_most (addBlock_rest e b s) (Suc (Suc (Suc 0)))"
    by (rule awaits_at_most_mono)
  have "awaits_at_most (addBlock_async e now block s) (Suc (Suc (Suc (Suc 0))))"
    by (simp add: addBlock_async_def Let_def r2 r3)
  then show ?thesis by (simp add: eval_nat_numeral)
qed

lemma call_async_awaits: "awaits_at_most (call_async e c s) 4"
  by (cases c) (simp_all add: addBlock_async_awaits submitStar_async_def Let_def split: option.splits)

lemma initializeChain_async_awaits: "awaits_at_most (initializeChain_async e now s) 4"
  by (simp add: initializeChain_async_def addBlock_async_awaits)

lemma addBlock_rest_height_is_length:
  "height_is_length s \<Longrightarrow> preserves height_is_length (addBlock_rest e b s)"
  by (simp add: addBlock_rest_def Let_def validateChain_resolves_true height_is_length_def)

lemma addBlock_async_height_is_length:
  "height_is_length s \<Longrightarrow> preserves height_is_length (addBlock_async e now block s)"
  by (simp add: addBlock_async_def Let_def addBlock_rest_height_is_length)

lemma call_async_height_is_length:
  "height_is_length s \<Longrightarrow> preserves height_is_length (call_async e c s)"
  by (cases c)
     (simp_all add: addBlock_async_height_is_length submitStar_async_def Let_def split: option.splits)

lemma initializeChain_async_height_is_length:
  "height_is_length s \<Longrightarrow> preserves height_is_length (initializeChain_async e now s)"
  by (simp add: initializeChain_async_def addBlock_async_height_is_length)

lemma run_passes_numeral:
  "run_passes (numeral k) q s =
     (case run_jobs q s of (s', q') \<Rightarrow> run_passes (pred_numeral k) q' s')"
  by (simp add: numeral_eq_Suc)

lemmas eval_async_defs =
  run_passes_numeral initializeChain_async_def submitStar_async_def addBlock_async_def
  addBlock_rest_def

lemma run_passes_Nil: "run_passes n [] s = (s, [])"
  by (induction n) simp_all

lemma run_passes_single:
  "awaits_at_most (j s) n \<Longrightarrow> run_passes (Suc n) [j] s = (finish (j s), [])"
proof (induction n arbitrary: j s)
  case 0
  then show ?case by (cases "j s") simp_all
next
  case (Suc n)
  show ?case
  proof (cases "j s")
    case (Await s' k')
    with Suc.prems have "awaits_at_most (k' s') n" by simp
    from Suc.IH [of k' s', OF this] Await show ?thesis by simp
  qed (simp_all add: run_passes_Nil)
qed

lemma run_passes_5_single:
  "awaits_at_most (j s) 4 \<Longrightarrow> run_passes 5 [j] s = (finish (j s), [])"
  using run_passes_single [of j s 4] by (simp add: eval_nat_numeral)



lemma jobs_settle_calls: "jobs_settle 4 (map (call_async e) cs)"
  by (simp add: jobs_settle_def call_async_awaits)

lemma jobs_preserve_calls: "jobs_preserve height_is_length (map (call_async e) cs)"
  by (simp add: jobs_preserve_def call_async_height_is_length)

lemma runs_settle:
  "snd (run_passes 5 (map (call_async e) cs) self) = [] \<and>
   snd (run_passes 5 (initializeChain_async e now # map (call_async e) cs) self) = []"
proof -
  have "jobs_settle 4 (initializeChain_async e now # map (call_async e) cs)"
    by (simp add: jobs_settle_def call_async_awaits initializeChain_async_awaits)
  from run_passes_settle [OF this] run_passes_settle [OF jobs_settle_calls] show ?thesis
    by (simp add: eval_nat_numeral)
qed

lemma height_is_length_first_run:
  "height_is_length
     (fst (run_passes n (initializeChain_async e now # map (call_async e) cs) Blockchain_empty))"
proof -
  have "jobs_preserve height_is_length (initializeChain_async e now # map (call_async e) cs)"
    by (simp add: jobs_preserve_def call_async_height_is_length
          initializeChain_async_height_is_length)
  moreover have "height_is_length Blockchain_empty"
    by (simp add: height_is_length_def Blockchain_empty_def)
  ultimately show ?thesis by (simp add: run_passes_preserves)
qed

lemma height_is_length_run:
  "height_is_length self \<Longrightarrow>
     height_is_length (fst (run_passes n (map (call_async e) cs) self))"
  by (simp add: run_passes_preserves jobs_preserve_calls)

lemma height_is_length_runs:
  "height_is_length self \<Longrightarrow> height_is_length (runs_state e runs self)"
  by (induction runs arbitrary: self) (simp_all add: height_is_length_run)

lemma toy_run_constructor:
  "Blockchain_run toy_env 5000
     [Call_submitStar 1301000 1302000 ''X'' ''X:1000:starRegistry'' ''sig-X'' ''s1''] =
   \<lparr>chain = [toy_block0, toy_block_early], height = 2\<rparr>"
  by (simp add: Blockchain_run_def eval_async_defs eval_defs toy_block_early_def)



text \<open>
  Claim C4, as amended. \<^verbatim>\<open>getChainHeight()\<close> resolves with the stored height, which is
  \<open>-1\<close> while the array is empty and the length of the array afterwards: in every history
  of runs, with calls that overlap or not, and at every turn of the queue. After a
  successful append that ran with no other call overlapping it, that is the height of the
  newest block plus one.
\<close>
theorem getChainHeight_is_length_in_every_history:
  "getChainHeight
     (fst (run_passes n (map (call_async e) cs') (runs_state e runs (Blockchain_run e now cs)))) =
     Resolved
       (if chain (fst (run_passes n (map (call_async e) cs')
                         (runs_state e runs (Blockchain_run e now cs)))) = []
        then - 1
        else int (length (chain (fst (run_passes n (map (call_async e) cs')
                                        (runs_state e runs (Blockchain_run e now cs))))))) \<and>
   getChainHeight
     (fst (run_passes n (initializeChain_async e now # map (call_async e) cs) Blockchain_empty)) =
     Resolved
       (if chain (fst (run_passes n (initializeChain_async e now # map (call_async e) cs)
                         Blockchain_empty)) = []
        then - 1
        else int (length (chain (fst (run_passes n
                  (initializeChain_async e now # map (call_async e) cs) Blockchain_empty))))) \<and>
   (addBlock e t block self = (Resolved added, self') \<longrightarrow>
      runs_state e [[Call_addBlock t block]] self = self' \<and>
      getChainHeight self' = Resolved (int (length (chain self'))) \<and>
      getChainHeight self' = Resolved (Block.height added + 1))"
proof (intro conjI impI)
  have "height_is_length (Blockchain_run e now cs)"
    unfolding Blockchain_run_def by (rule height_is_length_first_run)
  then have "height_is_length (runs_state e runs (Blockchain_run e now cs))"
    by (rule height_is_length_runs)
  then have "height_is_length
     (fst (run_passes n (map (call_async e) cs') (runs_state e runs (Blockchain_run e now cs))))"
    by (rule height_is_length_run)
  then show "getChainHeight
     (fst (run_passes n (map (call_async e) cs') (runs_state e runs (Blockchain_run e now cs)))) =
     Resolved
       (if chain (fst (run_passes n (map (call_async e) cs')
                         (runs_state e runs (Blockchain_run e now cs)))) = []
        then - 1
        else int (length (chain (fst (run_passes n (map (call_async e) cs')
                                        (runs_state e runs (Blockchain_run e now cs)))))))"
    by (simp add: getChainHeight_def height_is_length_def)
next
  from height_is_length_first_run [of n e now cs]
  show "getChainHeight
     (fst (run_passes n (initializeChain_async e now # map (call_async e) cs) Blockchain_empty)) =
     Resolved
       (if chain (fst (run_passes n (initializeChain_async e now # map (call_async e) cs)
                         Blockchain_empty)) = []
        then - 1
        else int (length (chain (fst (run_passes n
                  (initializeChain_async e now # map (call_async e) cs) Blockchain_empty)))))"
    by (simp add: getChainHeight_def height_is_length_def)
next
  assume a: "addBlock e t block self = (Resolved added, self')"
  have "runs_state e [[Call_addBlock t block]] self = finish (addBlock_async e t block self)"
    by (simp add: run_passes_5_single addBlock_async_awaits)
  with a show "runs_state e [[Call_addBlock t block]] self = self'"
    by (simp add: addBlock_async_alone)
  from addBlock_Resolved(1,2) [OF a] finalize_height [of e t block self]
  show "getChainHeight self' = Resolved (int (length (chain self')))"
    and "getChainHeight self' = Resolved (Block.height added + 1)"
    by (simp_all add: getChainHeight_def)
qed

theorem getChainHeight_is_length_in_every_history_witness:
  "Blockchain_run toy_env 5000
     [Call_submitStar 1301000 1302000 ''X'' ''X:1000:starRegistry'' ''sig-X'' ''s1''] =
     \<lparr>chain = [toy_block0, toy_block_early], height = 2\<rparr> \<and>
   getChainHeight \<lparr>chain = [toy_block0, toy_block_early], height = 2\<rparr> = Resolved 2 \<and>
   addBlock toy_env 1302000 (Block_new (StarData ''X'' ''X:1000:starRegistry'' ''sig-X'' ''s1'')) toy_chain0
     = (Resolved toy_block1, toy_chain1) \<and>
   runs_state toy_env
     [[Call_addBlock 1302000 (Block_new (StarData ''X'' ''X:1000:starRegistry'' ''sig-X'' ''s1''))]]
     toy_chain0 = toy_chain1 \<and>
   getChainHeight toy_chain1 = Resolved (Block.height toy_block1 + 1)"
proof -
  let ?cs = "[Call_submitStar 1301000 1302000 ''X'' ''X:1000:starRegistry'' ''sig-X'' ''s1'']"
  let ?b = "Block_new (StarData ''X'' ''X:1000:starRegistry'' ''sig-X'' ''s1'')"
  have r: "Blockchain_run toy_env 5000 ?cs = \<lparr>chain = [toy_block0, toy_block_early], height = 2\<rparr>"
    by (rule toy_run_constructor)
  note t = getChainHeight_is_length_in_every_history
    [of 0 toy_env "[]" "[]" 5000 ?cs 1302000 ?b toy_chain0 toy_block1 toy_chain1]
  from t have "getChainHeight (fst (run_passes 0 (map (call_async toy_env) [])
                     (runs_state toy_env [] (Blockchain_run toy_env 5000 ?cs)))) =
     Resolved
       (if chain (fst (run_passes 0 (map (call_async toy_env) [])
                         (runs_state toy_env [] (Blockchain_run toy_env 5000 ?cs)))) = []
        then - 1
        else int (length (chain (fst (run_passes 0 (map (call_async toy_env) [])
                                        (runs_state toy_env [] (Blockchain_run toy_env 5000 ?cs)))))))"
    by (rule conjunct1)
  then have "getChainHeight \<lparr>chain = [toy_block0, toy_block_early], height = 2\<rparr> = Resolved 2"
    unfolding r by simp
  moreover from t toy_addBlock1
  have "runs_state toy_env [[Call_addBlock 1302000 ?b]] toy_chain0 = toy_chain1"
    and "getChainHeight toy_chain1 = Resolved (Block.height toy_block1 + 1)"
    by blast+
  ultimately show ?thesis using r toy_addBlock1 by simp
qed

text \<open>
  Claim C4 as stated fails: after construction the array holds one block, so its length
  minus one is 0, and \<^verbatim>\<open>getChainHeight()\<close> resolves with 1.
\<close>

theorem getChainHeight_counterexample:
  "getChainHeight (Blockchain_new toy_env 5000) = Resolved 1 \<and>
   int (length (chain (Blockchain_new toy_env 5000))) - 1 = 0"
  by (simp add: toy_Blockchain_new) (simp add: toy_chain0_def getChainHeight_def)




subsection \<open>Stars by wallet address\<close>

lemma toy_calls_state: "calls_state toy_env toy_calls (Blockchain_new toy_env 5000) = toy_chain3"
  unfolding toy_Blockchain_new toy_calls_def
  by (simp add: toy_submitStar1) (simp add: eval_defs toy_chain3_def toy_block2_def toy_block3_def)

lemma run_jobs_first_await:
  assumes "\<And>x s. x \<in> set xs \<Longrightarrow> f x s = Await s (g x)"
  shows "run_jobs (map f xs) s = (s, map g xs)"
  using assms by (induction xs) simp_all

lemma run_jobs_pushes:
  assumes "\<And>x s. x \<in> set xs \<Longrightarrow> g x s = Done (s @ h x) \<or> (g x s = Threw s \<and> h x = [])"
  shows "run_jobs (map g xs) s = (s @ concat (map h xs), [])"
  using assms
proof (induction xs arbitrary: s)
  case Nil
  then show ?case by simp
next
  case (Cons x xs)
  from Cons.prems [of x s] consider "g x s = Done (s @ h x)" | "g x s = Threw s" "h x = []"
    by auto
  then show ?case
  proof cases
    case 1
    with Cons.IH [of "s @ h x"] Cons.prems show ?thesis by simp
  next
    case 2
    with Cons.IH [of s] Cons.prems show ?thesis by simp
  qed
qed

lemma getStars_first_pass:
  "getStarsByWalletAddress e address self =
     ([], map (\<lambda>block stars.
         case getBData e block of
           None \<Rightarrow> Threw stars
         | Some (GenesisData d) \<Rightarrow> Done stars
         | Some (StarData a m s star) \<Rightarrow>
             if a = address then Done (stars @ [star]) else Done stars) (chain self))"
  unfolding getStarsByWalletAddress_def forEach_async_def
  by (rule run_jobs_first_await) (simp add: getStars_callback_def)

lemma getStars_second_pass:
  "run_jobs (snd (getStarsByWalletAddress e address self)) (fst (getStarsByWalletAddress e address self))
     = (stars_of_address e address (chain self), [])"
proof -
  let ?h = "\<lambda>block. case getBData e block of
         None \<Rightarrow> []
       | Some (GenesisData d) \<Rightarrow> []
       | Some (StarData a m s star) \<Rightarrow> if a = address then [star] else []"
  have "run_jobs (map (\<lambda>block stars.
         case getBData e block of
           None \<Rightarrow> Threw stars
         | Some (GenesisData d) \<Rightarrow> Done stars
         | Some (StarData a m s star) \<Rightarrow>
             if a = address then Done (stars @ [star]) else Done stars) (chain self)) []
      = ([] @ concat (map ?h (chain self)), [])"
    by (rule run_jobs_pushes) (simp split: option.splits data.splits)
  then show ?thesis
    by (simp add: getStars_first_pass stars_of_address_def)
qed

lemma stars_of_address_above_genesis:
  assumes "\<forall>block\<in>set blocks. Block.height block \<le> 0 \<longrightarrow>
             (\<forall>m s star. getBData e block \<noteq> Some (StarData address m s star))"
  shows "stars_of_address e address blocks =
           stars_of_address e address (filter (\<lambda>block. Block.height block > 0) blocks)"
  using assms
  by (induction blocks) (auto simp: stars_of_address_def split: option.splits data.splits)

text \<open>
  Claim C7. \<^verbatim>\<open>getStarsByWalletAddress(address)\<close> gives exactly the stars of the
  non-genesis blocks whose decoded payload has the address, in the order of the chain, and
  skips a block whose payload fails to decode. The array is what a caller waiting for the
  promise reads, and by then every callback has finished. The code filters by the address
  alone: the restriction to blocks above height 0 holds when no payload at height 0
  decodes to an ownership record of the address, as for the genesis payload.
\<close>
theorem getStarsByWalletAddress_stars:
  "awaited (getStarsByWalletAddress e address self) = stars_of_address e address (chain self) \<and>
   snd (run_jobs (snd (getStarsByWalletAddress e address self))
          (fst (getStarsByWalletAddress e address self))) = [] \<and>
   ((\<forall>block\<in>set (chain self). Block.height block \<le> 0 \<longrightarrow>
        (\<forall>m s star. getBData e block \<noteq> Some (StarData address m s star))) \<longrightarrow>
    awaited (getStarsByWalletAddress e address self) =
      stars_of_address e address (filter (\<lambda>block. Block.height block > 0) (chain self)))"
proof -
  have a: "awaited (getStarsByWalletAddress e address self) = stars_of_address e address (chain self)"
    by (simp add: awaited_def getStars_second_pass)
  have b: "snd (run_jobs (snd (getStarsByWalletAddress e address self))
          (fst (getStarsByWalletAddress e address self))) = []"
    by (simp add: getStars_second_pass)
  from a b stars_of_address_above_genesis [of "chain self" e address] show ?thesis
    by auto
qed

theorem getStarsByWalletAddress_stars_witness:
  "calls_state toy_env toy_calls (Blockchain_new toy_env 5000) = toy_chain3 \<and>
   getBData toy_env toy_block0 = None \<and>
   awaited (getStarsByWalletAddress toy_env ''X'' toy_chain3) = [''s1'', ''s3''] \<and>
   stars_of_address toy_env ''X'' (filter (\<lambda>block. Block.height block > 0) (chain toy_chain3))
     = [''s1'', ''s3'']"
proof -
  have g: "\<forall>block\<in>set (chain toy_chain3). Block.height block \<le> 0 \<longrightarrow>
        (\<forall>m s star. getBData toy_env block \<noteq> Some (StarData ''X'' m s star))"
    by (simp add: toy_env_def)
  have s: "stars_of_address toy_env ''X'' (filter (\<lambda>block. Block.height block > 0) (chain toy_chain3))
     = [''s1'', ''s3'']"
    by (simp add: stars_of_address_def toy_chain3_def toy_block0_def toy_block1_def toy_block2_def
          toy_block3_def toy_env_def)
  from getStarsByWalletAddress_stars [of toy_env "''X''" toy_chain3] g
  have "awaited (getStarsByWalletAddress toy_env ''X'' toy_chain3) =
      stars_of_address toy_env ''X'' (filter (\<lambda>block. Block.height block > 0) (chain toy_chain3))"
    by blast
  with s toy_calls_state show ?thesis
    by (simp add: toy_env_def toy_block0_def)
qed

text \<open>When \<^verbatim>\<open>resolve(stars)\<close> runs, no callback has pushed yet.\<close>

lemma getStars_empty_at_resolve: "fst (getStarsByWalletAddress e address self) = []"
  by (simp add: getStars_first_pass)

subsection \<open>What whole-chain validation records and what it reports\<close>

text \<open>What the callback of one block has pushed when it has run to its end.\<close>
lemma validateChain_callback_finish:
  "finish (validateChain_callback e self block errorLog) =
     (if Block.height block \<le> 0 then errorLog
      else if \<not> validate e block then errorLog @ [invalid_block_msg block]
      else (case getBlockByHash self (previousBlockHash block) of
              None \<Rightarrow> errorLog
            | Some prevBlock \<Rightarrow>
                if hash prevBlock \<noteq> hash block then errorLog @ [invalid_previous_msg block]
                else errorLog))"
  by (simp add: validateChain_callback_def split: option.splits)

lemmas eval_chain_defs =
  validateChain_errorLog_def forEach_async_def validateChain_callback_def getBlockByHash_def
  invalid_previous_msg_def invalid_block_msg_def str_of_def toy_env_def toy_stringify_def
  data_string_def toString.simps digitChar_def
  toy_chain1_def toy_block0_def toy_block1_def toy_tampered_def toy_tampered_block_def
  toy_orphan_def

text \<open>
  Claim C1 says that the callback records a linkage error exactly when the lookup of
  \<^verbatim>\<open>block.previousBlockHash\<close> fails or finds a block of another hash. On the chain of
  genesis and one star, which is linked correctly, the callback of the star's block records
  \<^verbatim>\<open>Invalid previous block\<close>: the code compares the hash of the block found with
  \<^verbatim>\<open>block.hash\<close>. On a chain where the lookup fails, reading \<^verbatim>\<open>prevBlock.hash\<close>
  throws and nothing is recorded.
\<close>
theorem validateChain_linkage_error_on_linked_chain:
  "getBlockByHash toy_chain1 (previousBlockHash toy_block1) = Some toy_block0 \<and>
   hash toy_block0 = previousBlockHash toy_block1 \<and>
   validate toy_env toy_block1 \<and>
   finish (validateChain_callback toy_env toy_chain1 toy_block1 []) = [invalid_previous_msg toy_block1] \<and>
   validateChain_errorLog toy_env toy_chain1 = ([invalid_previous_msg toy_block1], []) \<and>
   getBlockByHash toy_orphan (previousBlockHash toy_block1) = None \<and>
   finish (validateChain_callback toy_env toy_orphan toy_block1 []) = [] \<and>
   fst (validateChain_errorLog toy_env toy_orphan) = []"
  by (simp add: eval_chain_defs)

text \<open>
  Claim C6 says that \<^verbatim>\<open>validateChain\<close> returns the complete list of findings. On a
  chain with a tampered block the promise resolves with \<^verbatim>\<open>true\<close>; the finding
  \<^verbatim>\<open>Invalid block\<close> reaches \<^verbatim>\<open>errorLog\<close> only afterwards, when the suspended callback
  runs.
\<close>
theorem validateChain_drops_findings:
  "\<not> validate toy_env toy_tampered_block \<and>
   validateChain toy_env toy_tampered = Resolved True \<and>
   validateChain_errorLog toy_env toy_tampered = ([invalid_block_msg toy_tampered_block], [])"
  by (simp add: validateChain_resolves_true) (simp add: eval_chain_defs)

text \<open>
  Claim C3 says that a message 301 seconds old is refused as expired. The code compares
  the difference of two times in seconds with \<^verbatim>\<open>5 * 60 * 1000\<close>: at 301 seconds the
  star is added, at 300000 seconds the call is still not refused, and at 300001 seconds
  it is.
\<close>
theorem submitStar_301_seconds_not_expired:
  "parseInt (component (split (CHR '':'') ''X:1000:starRegistry'') 1) = Some 1000 \<and>
   parseInt (seconds_string 1301000) = Some 1301 \<and>
   submitStar toy_env 1301000 1302000 ''X'' ''X:1000:starRegistry'' ''sig-X'' ''s1'' toy_chain0 =
     (Resolved toy_block1, toy_chain1) \<and>
   submitStar toy_env 301000000 301000000 ''X'' ''X:1000:starRegistry'' ''sig-X'' ''s1'' toy_chain0 \<noteq>
     (Rejected (Error ''More than 5 minutes have elapsed''), toy_chain0) \<and>
   submitStar toy_env 301001000 301001000 ''X'' ''X:1000:starRegistry'' ''sig-X'' ''s1'' toy_chain0 =
     (Rejected (Error ''More than 5 minutes have elapsed''), toy_chain0)"
  by (simp add: toy_submitStar1) (simp add: eval_defs)

text \<open>The call is refused for the time exactly when the difference exceeds 300000.\<close>

lemma submitStar_expired_iff:
  "fst (submitStar e now now' address message signature star self) =
       Rejected (Error ''More than 5 minutes have elapsed'') \<longleftrightarrow>
   greater_number
     (minus_number (parseInt (seconds_string now))
        (parseInt (component (split (CHR '':'') message) 1))) 300000"
  by (auto simp: submitStar_def Let_def split: option.splits prod.splits promise.splits)

text \<open>
  Claim C5, as amended. When \<^verbatim>\<open>parseInt\<close> finds no number in the second component of
  the message (or there is none), the call is not refused for the time: it goes on to the
  verification of the signature, rejects with \<^verbatim>\<open>Failed to verify message\<close> when that
  returns false, and otherwise adds the block as for any other message.
\<close>
theorem submitStar_unparsable_time:
  assumes "parseInt (component (split (CHR '':'') message) 1) = None"
  shows "fst (submitStar e now now' address message signature star self) \<noteq>
           Rejected (Error ''More than 5 minutes have elapsed'') \<and>
         (verify e message address signature = Some False \<longrightarrow>
            submitStar e now now' address message signature star self =
              (Rejected (Error ''Failed to verify message''), self)) \<and>
         (verify e message address signature = Some True \<longrightarrow>
            snd (submitStar e now now' address message signature star self) =
              snd (addBlock e now' (Block_new (StarData address message signature star)) self) \<and>
            (\<forall>added. fst (addBlock e now' (Block_new (StarData address message signature star)) self)
                        = Resolved added \<longrightarrow>
               fst (submitStar e now now' address message signature star self) = Resolved added))"
proof -
  have n: "\<not> greater_number
     (minus_number (parseInt (seconds_string now))
        (parseInt (component (split (CHR '':'') message) 1))) 300000"
    using assms by (simp add: minus_number_def greater_number_def split: option.splits)
  then have "fst (submitStar e now now' address message signature star self) \<noteq>
           Rejected (Error ''More than 5 minutes have elapsed'')"
    by (simp add: submitStar_expired_iff)
  moreover from n have "verify e message address signature = Some False \<Longrightarrow>
            submitStar e now now' address message signature star self =
              (Rejected (Error ''Failed to verify message''), self)"
    by (simp add: submitStar_def Let_def)
  moreover from n have "verify e message address signature = Some True \<Longrightarrow>
            snd (submitStar e now now' address message signature star self) =
              snd (addBlock e now' (Block_new (StarData address message signature star)) self) \<and>
            (\<forall>added. fst (addBlock e now' (Block_new (StarData address message signature star)) self)
                        = Resolved added \<longrightarrow>
               fst (submitStar e now now' address message signature star self) = Resolved added)"
    by (auto simp: submitStar_def Let_def split: prod.splits promise.splits)
  ultimately show ?thesis by blast
qed

text \<open>
  Claim C5 as stated fails: the message \<^verbatim>\<open>abc\<close> has no second component, and with a
  signature that verifies the call resolves with a new block.
\<close>

lemma toy_submitStar_abc:
  "submitStar toy_env 1301000 1302000 ''X'' ''abc'' ''sig-X'' ''s1'' toy_chain0 =
     (Resolved toy_block_abc, \<lparr>chain = [toy_block0, toy_block_abc], height = 2\<rparr>)"
  by (simp add: eval_defs toy_block_abc_def)

theorem submitStar_unparsable_time_counterexample:
  "parseInt (component (split (CHR '':'') ''abc'') 1) = None \<and>
   verify toy_env ''abc'' ''X'' ''sig-X'' = Some True \<and>
   submitStar toy_env 1301000 1302000 ''X'' ''abc'' ''sig-X'' ''s1'' toy_chain0 =
     (Resolved toy_block_abc, \<lparr>chain = [toy_block0, toy_block_abc], height = 2\<rparr>)"
  by (simp add: toy_submitStar_abc) (simp add: eval_defs)

theorem submitStar_unparsable_time_witness:
  "parseInt (component (split (CHR '':'') ''abc'') 1) = None \<and>
   verify toy_env ''abc'' ''X'' ''sig-X'' = Some True \<and>
   fst (submitStar toy_env 1301000 1302000 ''X'' ''abc'' ''sig-X'' ''s1'' toy_chain0) \<noteq>
     Rejected (Error ''More than 5 minutes have elapsed'') \<and>
   snd (submitStar toy_env 1301000 1302000 ''X'' ''abc'' ''sig-X'' ''s1'' toy_chain0) =
     snd (addBlock toy_env 1302000 (Block_new (StarData ''X'' ''abc'' ''sig-X'' ''s1'')) toy_chain0)"
proof -
  have p: "parseInt (component (split (CHR '':'') ''abc'') 1) = None"
    by (simp add: eval_defs)
  have v: "verify toy_env ''abc'' ''X'' ''sig-X'' = Some True"
    by (simp add: toy_env_def)
  from submitStar_unparsable_time [OF p, of toy_env 1301000 1302000 "''X''" "''sig-X''" "''s1''" toy_chain0] p v
  show ?thesis by simp
qed

end
